theory Spec2Isabelle
  imports Complex_Main "HOL-Library.Multiset" "HOL-Library.AList"
begin

section \<open>Decoded documents and the Python operations applied to them\<close>

text \<open>
  The scripts \<^verbatim>\<open>cvss_metrics.py\<close> and \<^verbatim>\<open>cvss_metric_plot.py\<close> work on the value that
  \<^verbatim>\<open>json.load\<close> returns: \<^verbatim>\<open>None\<close>, a bool, a number, a string, a list or a dict.
  A dict is an association list in insertion order (its keys are distinct in a value
  that \<^verbatim>\<open>json.load\<close> built). A number is the exact value of the Python int or finite
  float, so \<^verbatim>\<open>1\<close> and \<^verbatim>\<open>1.0\<close> are the same value, as they are the same dictionary key
  in Python. Strings are lists of ASCII characters.
\<close>

datatype json =
    JNull
  | JBool bool
  | JNum rat
  | JStr string
  | JArr "json list"
  | JObj "(string \<times> json) list"

text \<open>The exceptions the code can raise; \<open>LoadError\<close> is whatever \<^verbatim>\<open>open\<close> or
  \<^verbatim>\<open>json.load\<close> raised.\<close>

datatype py_error = AttributeError | TypeError | ValueError | KeyError | LoadError

text \<open>Sequencing of steps that may raise: the first exception ends the computation.\<close>

definition seq :: "py_error + 'a \<Rightarrow> ('a \<Rightarrow> py_error + 'b) \<Rightarrow> py_error + 'b" where
  "seq r f = (case r of Inl e \<Rightarrow> Inl e | Inr x \<Rightarrow> f x)"

text \<open>\<^verbatim>\<open>if x:\<close> and \<^verbatim>\<open>not x\<close>: Python's truth value of a decoded value.\<close>

fun truthy :: "json \<Rightarrow> bool" where
  "truthy JNull = False"
| "truthy (JBool b) = b"
| "truthy (JNum r) = (r \<noteq> 0)"
| "truthy (JStr s) = (s \<noteq> [])"
| "truthy (JArr xs) = (xs \<noteq> [])"
| "truthy (JObj kvs) = (kvs \<noteq> [])"

text \<open>\<^verbatim>\<open>x.get(k, d)\<close>: only a dict has the method.\<close>

fun py_get :: "json \<Rightarrow> string \<Rightarrow> json \<Rightarrow> py_error + json" where
  "py_get (JObj kvs) k d = Inr (case map_of kvs k of Some v \<Rightarrow> v | None \<Rightarrow> d)"
| "py_get _ k d = Inl AttributeError"

text \<open>\<^verbatim>\<open>k in s\<close> for two strings is the substring test.\<close>

fun starts_with :: "string \<Rightarrow> string \<Rightarrow> bool" where
  "starts_with [] s = True"
| "starts_with (c # cs) [] = False"
| "starts_with (c # cs) (d # ds) = (c = d \<and> starts_with cs ds)"

fun contains_str :: "string \<Rightarrow> string \<Rightarrow> bool" where
  "contains_str k [] = (k = [])"
| "contains_str k (d # ds) = (starts_with k (d # ds) \<or> contains_str k ds)"

text \<open>\<^verbatim>\<open>'k' in x\<close>: key membership in a dict, element membership in a list, substring
  of a string, \<^verbatim>\<open>TypeError\<close> on anything else.\<close>

fun py_in :: "string \<Rightarrow> json \<Rightarrow> py_error + bool" where
  "py_in k (JObj kvs) = Inr (k \<in> set (map fst kvs))"
| "py_in k (JArr xs) = Inr (JStr k \<in> set xs)"
| "py_in k (JStr s) = Inr (contains_str k s)"
| "py_in k _ = Inl TypeError"

text \<open>\<^verbatim>\<open>x['k']\<close>: a list or a string wants an integer index, the other values are not
  subscriptable.\<close>

fun py_item :: "json \<Rightarrow> string \<Rightarrow> py_error + json" where
  "py_item (JObj kvs) k = (case map_of kvs k of Some v \<Rightarrow> Inr v | None \<Rightarrow> Inl KeyError)"
| "py_item _ k = Inl TypeError"

text \<open>\<^verbatim>\<open>for x in v\<close>: the elements of a list, the keys of a dict, the characters of a
  string.\<close>

fun py_iter :: "json \<Rightarrow> py_error + json list" where
  "py_iter (JArr xs) = Inr xs"
| "py_iter (JObj kvs) = Inr (map (\<lambda>kv. JStr (fst kv)) kvs)"
| "py_iter (JStr s) = Inr (map (\<lambda>c. JStr [c]) s)"
| "py_iter _ = Inl TypeError"

text \<open>\<^verbatim>\<open>s.split(c)\<close> with a one-character separator: never an empty list.\<close>

fun split_on :: "char \<Rightarrow> string \<Rightarrow> string list" where
  "split_on c [] = [[]]"
| "split_on c (x # xs) =
     (if x = c then [] # split_on c xs
      else (case split_on c xs of [] \<Rightarrow> [[x]] | y # ys \<Rightarrow> (x # y) # ys))"

fun py_split :: "json \<Rightarrow> char \<Rightarrow> py_error + string list" where
  "py_split (JStr s) c = Inr (split_on c s)"
| "py_split _ c = Inl AttributeError"

section \<open>Vector Grammar Parser\<close>

text \<open>
  A metric map is a Python dict from the metric name to its value: an association list,
  where \<^verbatim>\<open>metrics[k] = v\<close> is \<^const>\<open>AList.update\<close> (an existing key keeps its place).
\<close>

type_synonym metrics = "(string \<times> json) list"

definition v3_defaults :: metrics where
  "v3_defaults =
     [(''Confidentiality'', JStr ''N/A''), (''Integrity'', JStr ''N/A''),
      (''Availability'', JStr ''N/A''), (''Attack Vector'', JStr ''N/A''),
      (''Attack Complexity'', JStr ''N/A''), (''Privileges Required'', JStr ''N/A''),
      (''User Interaction'', JStr ''N/A''), (''Scope'', JStr ''N/A''),
      (''baseSeverity'', JStr ''N/A'')]"

definition v2_defaults :: metrics where
  "v2_defaults =
     [(''Confidentiality'', JStr ''N/A''), (''Integrity'', JStr ''N/A''),
      (''Availability'', JStr ''N/A''), (''Attack Vector'', JStr ''N/A''),
      (''Attack Complexity'', JStr ''N/A''), (''Authentication'', JStr ''N/A''),
      (''baseSeverity'', JStr ''N/A'')]"

text \<open>The body of \<^verbatim>\<open>for part in vector_parts\<close> of \<^verbatim>\<open>parse_vector_string\<close>:
  \<^verbatim>\<open>key, value = part.split(':')\<close> raises \<^verbatim>\<open>ValueError\<close> unless the split has exactly
  two parts.\<close>

definition v3_part :: "string \<Rightarrow> metrics \<Rightarrow> py_error + metrics" where
  "v3_part part m =
     (if CHR '':'' \<in> set part then
        (case split_on CHR '':'' part of
           [key, val] \<Rightarrow>
             Inr (if key = ''C'' then AList.update ''Confidentiality'' (JStr val) m
                  else if key = ''I'' then AList.update ''Integrity'' (JStr val) m
                  else if key = ''A'' then AList.update ''Availability'' (JStr val) m
                  else if key = ''AV'' then AList.update ''Attack Vector'' (JStr val) m
                  else if key = ''AC'' then AList.update ''Attack Complexity'' (JStr val) m
                  else if key = ''PR'' then AList.update ''Privileges Required'' (JStr val) m
                  else if key = ''UI'' then AList.update ''User Interaction'' (JStr val) m
                  else if key = ''S'' then AList.update ''Scope'' (JStr val) m
                  else m)
         | _ \<Rightarrow> Inl ValueError)
      else Inr m)"

text \<open>The same body in \<^verbatim>\<open>parse_vector_string_v2\<close>.\<close>

definition v2_part :: "string \<Rightarrow> metrics \<Rightarrow> py_error + metrics" where
  "v2_part part m =
     (if CHR '':'' \<in> set part then
        (case split_on CHR '':'' part of
           [key, val] \<Rightarrow>
             Inr (if key = ''C'' then AList.update ''Confidentiality'' (JStr val) m
                  else if key = ''I'' then AList.update ''Integrity'' (JStr val) m
                  else if key = ''A'' then AList.update ''Availability'' (JStr val) m
                  else if key = ''AV'' then AList.update ''Attack Vector'' (JStr val) m
                  else if key = ''AC'' then AList.update ''Attack Complexity'' (JStr val) m
                  else if key = ''Au'' then AList.update ''Authentication'' (JStr val) m
                  else m)
         | _ \<Rightarrow> Inl ValueError)
      else Inr m)"

fun for_parts ::
  "(string \<Rightarrow> metrics \<Rightarrow> py_error + metrics) \<Rightarrow> string list \<Rightarrow> metrics \<Rightarrow> py_error + metrics"
where
  "for_parts body [] m = Inr m"
| "for_parts body (p # ps) m =
     (case body p m of Inl e \<Rightarrow> Inl e | Inr m' \<Rightarrow> for_parts body ps m')"

definition parse_vector_string :: "json \<Rightarrow> py_error + metrics" where
  "parse_vector_string vector_string =
     (if \<not> truthy vector_string then Inr v3_defaults
      else seq (py_split vector_string CHR ''/'')
             (\<lambda>vector_parts. for_parts v3_part vector_parts v3_defaults))"

definition parse_vector_string_v2 :: "json \<Rightarrow> py_error + metrics" where
  "parse_vector_string_v2 vector_string =
     (if \<not> truthy vector_string then Inr v2_defaults
      else seq (py_split vector_string CHR ''/'')
             (\<lambda>vector_parts. for_parts v2_part vector_parts v2_defaults))"

section \<open>Field Decoder\<close>

text \<open>A dict literal whose values are \<^verbatim>\<open>cvss.get(field, 'N/A')\<close>, evaluated in order:
  each pair is the metric name and the field it is read from.\<close>

fun get_fields :: "json \<Rightarrow> (string \<times> string) list \<Rightarrow> py_error + metrics" where
  "get_fields cvss [] = Inr []"
| "get_fields cvss (nf # rest) =
     seq (py_get cvss (snd nf) (JStr ''N/A''))
       (\<lambda>v. seq (get_fields cvss rest) (\<lambda>m. Inr ((fst nf, v) # m)))"

text \<open>The branch of \<^verbatim>\<open>extract_metrics\<close> taken for \<^verbatim>\<open>cvssV3_1\<close> and, with the same
  text, for \<^verbatim>\<open>cvssV3_0\<close>.\<close>

definition decode_v3 :: "json \<Rightarrow> py_error + metrics" where
  "decode_v3 cvss =
     seq (py_get cvss ''vectorString'' (JStr []))
       (\<lambda>vector_string.
          if truthy vector_string then parse_vector_string vector_string
          else get_fields cvss
                 [(''Confidentiality'', ''confidentialityImpact''),
                  (''Integrity'', ''integrityImpact''),
                  (''Availability'', ''availabilityImpact''),
                  (''Attack Vector'', ''attackVector''),
                  (''Attack Complexity'', ''attackComplexity''),
                  (''Privileges Required'', ''privilegesRequired''),
                  (''User Interaction'', ''userInteraction''),
                  (''Scope'', ''scope''),
                  (''baseSeverity'', ''baseSeverity'')])"

text \<open>The branch for \<^verbatim>\<open>cvssV2_0\<close>; its \<^verbatim>\<open>baseSeverity\<close> entry is the constant
  \<^verbatim>\<open>'N/A'\<close>.\<close>

definition decode_v2 :: "json \<Rightarrow> py_error + metrics" where
  "decode_v2 cvss =
     seq (py_get cvss ''vectorString'' (JStr []))
       (\<lambda>vector_string.
          if truthy vector_string then parse_vector_string_v2 vector_string
          else seq (get_fields cvss
                      [(''Confidentiality'', ''confidentialityImpact''),
                       (''Integrity'', ''integrityImpact''),
                       (''Availability'', ''availabilityImpact''),
                       (''Attack Vector'', ''accessVector''),
                       (''Attack Complexity'', ''accessComplexity''),
                       (''Authentication'', ''authentication'')])
                 (\<lambda>m. Inr (m @ [(''baseSeverity'', JStr ''N/A'')])))"

definition extract_metrics :: "json \<Rightarrow> py_error + metrics" where
  "extract_metrics cvss_data =
     seq (py_in ''cvssV3_1'' cvss_data)
       (\<lambda>is31.
          if is31 then seq (py_item cvss_data ''cvssV3_1'') decode_v3
          else seq (py_in ''cvssV3_0'' cvss_data)
                 (\<lambda>is30.
                    if is30 then seq (py_item cvss_data ''cvssV3_0'') decode_v3
                    else seq (py_in ''cvssV2_0'' cvss_data)
                           (\<lambda>is2.
                              if is2 then seq (py_item cvss_data ''cvssV2_0'') decode_v2
                              else Inr [])))"

section \<open>Impact normalisation (\<^verbatim>\<open>cvss_metric_plot.py\<close>)\<close>

text \<open>\<^verbatim>\<open>str.upper\<close> on ASCII text: the letters a to z move to A to Z.\<close>

definition upper_char :: "char \<Rightarrow> char" where
  "upper_char c =
     (if 97 \<le> (of_char c :: nat) \<and> (of_char c :: nat) \<le> 122
      then char_of ((of_char c :: nat) - 32) else c)"

definition upper :: "string \<Rightarrow> string" where
  "upper s = map upper_char s"

text \<open>\<^verbatim>\<open>str(value)\<close> is the string itself for a string. For the other values it is
  Python's built-in conversion, which the function takes as the parameter \<open>py_str\<close>.\<close>

definition normalize_impact :: "(json \<Rightarrow> string) \<Rightarrow> json \<Rightarrow> string" where
  "normalize_impact py_str val =
     (if val = JNull then ''N/A''
      else (let v = upper (case val of JStr s \<Rightarrow> s | _ \<Rightarrow> py_str val) in
            if v \<in> set [''H'', ''HIGH''] then ''HIGH''
            else if v \<in> set [''L'', ''LOW''] then ''LOW''
            else if v \<in> set [''N'', ''NONE''] then ''NONE''
            else if v \<in> set [''M'', ''MEDIUM''] then ''MEDIUM''
            else ''N/A''))"

section \<open>Severity Resolver\<close>

text \<open>\<^verbatim>\<open>base_score >= t\<close> against a float literal: defined for a number and for a bool
  (\<^verbatim>\<open>True\<close> is 1), \<^verbatim>\<open>TypeError\<close> otherwise. The literals 9.0, 7.0 and 4.0 are exact;
  no float lies between one tenth and the float 0.1, so the comparison with 0.1 is the
  comparison with one tenth.\<close>

fun py_ge :: "json \<Rightarrow> rat \<Rightarrow> py_error + bool" where
  "py_ge (JNum r) t = Inr (t \<le> r)"
| "py_ge (JBool b) t = Inr (t \<le> (if b then 1 else 0))"
| "py_ge _ t = Inl TypeError"

definition calculate_severity_from_score :: "json \<Rightarrow> string \<Rightarrow> py_error + string" where
  "calculate_severity_from_score base_score cvss_version =
     (if cvss_version = ''v3'' then
        seq (py_ge base_score 9) (\<lambda>c. if c then Inr ''Critical'' else
        seq (py_ge base_score 7) (\<lambda>h. if h then Inr ''High'' else
        seq (py_ge base_score 4) (\<lambda>m. if m then Inr ''Medium'' else
        seq (py_ge base_score (1 / 10)) (\<lambda>l. if l then Inr ''Low'' else Inr ''N/A''))))
      else
        seq (py_ge base_score 7) (\<lambda>h. if h then Inr ''High'' else
        seq (py_ge base_score 4) (\<lambda>m. if m then Inr ''Medium'' else
        seq (py_ge base_score (1 / 10)) (\<lambda>l. if l then Inr ''Low'' else Inr ''N/A''))))"

text \<open>The branch of \<^verbatim>\<open>extract_severity_from_cvss\<close> for \<^verbatim>\<open>cvssV3_1\<close> and, with the same
  text, for \<^verbatim>\<open>cvssV3_0\<close>: the label when it is truthy, else the score.\<close>

definition severity_v3 :: "json \<Rightarrow> py_error + string" where
  "severity_v3 cvss =
     seq (py_get cvss ''baseSeverity'' JNull)
       (\<lambda>base_severity.
          if truthy base_severity then
            Inr (if base_severity = JStr ''CRITICAL'' then ''Critical''
                 else if base_severity = JStr ''HIGH'' then ''High''
                 else if base_severity = JStr ''MEDIUM'' then ''Medium''
                 else if base_severity = JStr ''LOW'' then ''Low''
                 else ''N/A'')
          else seq (py_get cvss ''baseScore'' JNull)
                 (\<lambda>base_score.
                    if base_score \<noteq> JNull then calculate_severity_from_score base_score ''v3''
                    else Inr ''N/A''))"

definition severity_v2 :: "json \<Rightarrow> py_error + string" where
  "severity_v2 cvss =
     seq (py_get cvss ''baseScore'' JNull)
       (\<lambda>base_score.
          if base_score \<noteq> JNull then calculate_severity_from_score base_score ''v2''
          else Inr ''N/A'')"

definition extract_severity_from_cvss :: "json \<Rightarrow> py_error + string" where
  "extract_severity_from_cvss cvss_data =
     seq (py_in ''cvssV3_1'' cvss_data)
       (\<lambda>is31.
          if is31 then seq (py_item cvss_data ''cvssV3_1'') severity_v3
          else seq (py_in ''cvssV3_0'' cvss_data)
                 (\<lambda>is30.
                    if is30 then seq (py_item cvss_data ''cvssV3_0'') severity_v3
                    else seq (py_in ''cvssV2_0'' cvss_data)
                           (\<lambda>is2.
                              if is2 then seq (py_item cvss_data ''cvssV2_0'') severity_v2
                              else Inr ''N/A'')))"

section \<open>Aggregator state\<close>

text \<open>
  The local variables of \<^verbatim>\<open>process_json_files\<close> that outlive a document. A
  \<^verbatim>\<open>Counter\<close> that is only incremented is a multiset. \<open>frequency_counter\<close> is the dict
  of counters, whose keys are the ten names of \<open>frequency_keys\<close> from its creation to the
  end of the loop; \<open>frequency_counter_v2\<close> is the one counter of that dict,
  \<^verbatim>\<open>'Authentication'\<close>. \<open>error_log\<close> is what the \<^verbatim>\<open>except\<close> clause prints: the path
  and the exception. The variable \<^verbatim>\<open>cvss_version\<close> is assigned and never read, and has
  no field.
\<close>

record tally =
  frequency_counter :: "string \<Rightarrow> json multiset"
  frequency_counter_v2 :: "json multiset"
  total_files :: nat
  files_with_metrics :: nat
  files_processed :: nat
  cvss_v2_files :: nat
  cvss_v3_files :: nat
  error_log :: "(string \<times> py_error) list"

definition frequency_keys :: "string list" where
  "frequency_keys =
     [''Confidentiality'', ''Integrity'', ''Availability'', ''Attack Vector'',
      ''Attack Complexity'', ''Privileges Required'', ''User Interaction'', ''Scope'',
      ''baseSeverity'', ''SeverityLevel'']"

definition initial_tally :: tally where
  "initial_tally =
     \<lparr>frequency_counter = (\<lambda>name. {#}), frequency_counter_v2 = {#}, total_files = 0,
      files_with_metrics = 0, files_processed = 0, cvss_v2_files = 0, cvss_v3_files = 0,
      error_log = []\<rparr>"

text \<open>The key a value has in a \<^verbatim>\<open>Counter\<close>: a list or a dict is unhashable
  (\<^verbatim>\<open>TypeError\<close>), and \<^verbatim>\<open>True\<close> and \<^verbatim>\<open>False\<close> are the keys 1 and 0.\<close>

fun counter_key :: "json \<Rightarrow> py_error + json" where
  "counter_key (JArr xs) = Inl TypeError"
| "counter_key (JObj kvs) = Inl TypeError"
| "counter_key (JBool b) = Inr (JNum (if b then 1 else 0))"
| "counter_key v = Inr v"

text \<open>A step on the state either completes (\<open>None\<close>) or raises; the state it returns
  holds every increment made before the exception.\<close>

type_synonym step = "tally \<Rightarrow> py_error option \<times> tally"

definition and_then :: "py_error option \<times> tally \<Rightarrow> step \<Rightarrow> py_error option \<times> tally" where
  "and_then r f = (case r of (None, s) \<Rightarrow> f s | (Some e, s) \<Rightarrow> (Some e, s))"

text \<open>\<^verbatim>\<open>frequency_counter[name][value] += 1\<close>\<close>

definition count_in :: "string \<Rightarrow> json \<Rightarrow> step" where
  "count_in name v s =
     (case counter_key v of
        Inl e \<Rightarrow> (Some e, s)
      | Inr k \<Rightarrow>
          (None, s\<lparr>frequency_counter :=
                     (frequency_counter s)(name := add_mset k (frequency_counter s name))\<rparr>))"

text \<open>\<^verbatim>\<open>for key, value in metrics.items(): if key in frequency_counter: ...\<close> of
  \<^verbatim>\<open>cvss_metrics.py\<close> (lines 287 to 289 and 318 to 320).\<close>

fun update_counters :: "metrics \<Rightarrow> step" where
  "update_counters [] s = (None, s)"
| "update_counters (kv # rest) s =
     (if fst kv \<in> set frequency_keys
      then and_then (count_in (fst kv) (snd kv) s) (update_counters rest)
      else update_counters rest s)"

text \<open>The same loop in \<^verbatim>\<open>cvss_metric_plot.py\<close>, which first replaces the value of the
  three impact metrics by its normalisation.\<close>

fun update_counters_plot :: "(json \<Rightarrow> string) \<Rightarrow> metrics \<Rightarrow> step" where
  "update_counters_plot py_str [] s = (None, s)"
| "update_counters_plot py_str (kv # rest) s =
     (let val = (if fst kv \<in> set [''Confidentiality'', ''Integrity'', ''Availability'']
                 then JStr (normalize_impact py_str (snd kv)) else snd kv)
      in if fst kv \<in> set frequency_keys
         then and_then (count_in (fst kv) val s) (update_counters_plot py_str rest)
         else update_counters_plot py_str rest s)"

section \<open>Container Locator and Aggregator (\<^verbatim>\<open>process_json_files\<close> of \<^verbatim>\<open>cvss_metrics.py\<close>)\<close>

text \<open>The version check of a block (lines 275 to 284 and 306 to 315).\<close>

definition count_version :: "json \<Rightarrow> metrics \<Rightarrow> step" where
  "count_version cvss_data metrics s =
     (case py_in ''cvssV2_0'' cvss_data of
        Inl e \<Rightarrow> (Some e, s)
      | Inr is2 \<Rightarrow>
          if is2 then
            (let s' = s\<lparr>cvss_v2_files := cvss_v2_files s + 1\<rparr> in
             case map_of metrics ''Authentication'' of
               None \<Rightarrow> (None, s')
             | Some a \<Rightarrow>
                 (case counter_key a of
                    Inl e \<Rightarrow> (Some e, s')
                  | Inr k \<Rightarrow>
                      (None, s'\<lparr>frequency_counter_v2 := add_mset k (frequency_counter_v2 s')\<rparr>)))
          else
            (case seq (py_in ''cvssV3_0'' cvss_data)
                    (\<lambda>is30. if is30 then Inr True else py_in ''cvssV3_1'' cvss_data) of
               Inl e \<Rightarrow> (Some e, s)
             | Inr is3 \<Rightarrow>
                 if is3 then (None, s\<lparr>cvss_v3_files := cvss_v3_files s + 1\<rparr>) else (None, s)))"

text \<open>The body of \<^verbatim>\<open>for cvss_data in cna_metrics\<close> (lines 268 to 289); the body of
  \<^verbatim>\<open>for cvss_data in adp_metrics\<close> (lines 299 to 320) is the same text.\<close>

definition count_block :: "json \<Rightarrow> step" where
  "count_block cvss_data s =
     (case extract_metrics cvss_data of
        Inl e \<Rightarrow> (Some e, s)
      | Inr metrics \<Rightarrow>
          if metrics = [] then (None, s)
          else
            (case extract_severity_from_cvss cvss_data of
               Inl e \<Rightarrow> (Some e, s)
             | Inr severity_level \<Rightarrow>
                 and_then
                   (if severity_level \<noteq> ''N/A''
                    then count_in ''SeverityLevel'' (JStr severity_level) s else (None, s))
                   (\<lambda>s1. and_then (count_version cvss_data metrics s1)
                            (update_counters metrics))))"

fun for_blocks :: "json list \<Rightarrow> step" where
  "for_blocks [] s = (None, s)"
| "for_blocks (cvss_data # rest) s = and_then (count_block cvss_data s) (for_blocks rest)"

definition scan_metrics :: "json \<Rightarrow> step" where
  "scan_metrics metrics_list s =
     (case py_iter metrics_list of
        Inl e \<Rightarrow> (Some e, s)
      | Inr blocks \<Rightarrow> for_blocks blocks s)"

text \<open>A tier returns the value of \<^verbatim>\<open>has_metrics\<close> after it, unless it raised.\<close>

type_synonym tier = "tally \<Rightarrow> (py_error + bool) \<times> tally"

definition found :: "py_error option \<times> tally \<Rightarrow> (py_error + bool) \<times> tally" where
  "found r = (case r of (None, s) \<Rightarrow> (Inr True, s) | (Some e, s) \<Rightarrow> (Inl e, s))"

definition cna_metrics :: "json \<Rightarrow> py_error + json" where
  "cna_metrics data =
     seq (py_get data ''containers'' (JObj []))
       (\<lambda>containers. seq (py_get containers ''cna'' (JObj []))
          (\<lambda>cna. py_get cna ''metrics'' (JArr [])))"

definition cna_tier :: "json \<Rightarrow> tier" where
  "cna_tier data s =
     (case cna_metrics data of
        Inl e \<Rightarrow> (Inl e, s)
      | Inr m \<Rightarrow> if truthy m then found (scan_metrics m s) else (Inr False, s))"

fun for_adp :: "json list \<Rightarrow> bool \<Rightarrow> tier" where
  "for_adp [] has_metrics s = (Inr has_metrics, s)"
| "for_adp (adp # rest) has_metrics s =
     (case py_get adp ''metrics'' (JArr []) of
        Inl e \<Rightarrow> (Inl e, s)
      | Inr adp_metrics \<Rightarrow>
          if truthy adp_metrics then
            (case scan_metrics adp_metrics s of
               (Some e, s') \<Rightarrow> (Inl e, s')
             | (None, s') \<Rightarrow> for_adp rest True s')
          else for_adp rest has_metrics s)"

definition adp_tier :: "json \<Rightarrow> tier" where
  "adp_tier data s =
     (case seq (py_get data ''containers'' (JObj []))
             (\<lambda>containers. seq (py_get containers ''adp'' (JArr [])) py_iter) of
        Inl e \<Rightarrow> (Inl e, s)
      | Inr adp_list \<Rightarrow> for_adp adp_list False s)"

text \<open>The legacy v3 sub-block (lines 330 to 348), after \<^verbatim>\<open>has_metrics = True\<close>.\<close>

definition legacy_v3 :: "json \<Rightarrow> step" where
  "legacy_v3 cvss_v3 s0 =
     (let s = s0\<lparr>cvss_v3_files := cvss_v3_files s0 + 1\<rparr> in
      case py_get cvss_v3 ''baseScore'' JNull of
        Inl e \<Rightarrow> (Some e, s)
      | Inr base_score \<Rightarrow>
          if base_score = JNull then (None, s)
          else
            (case calculate_severity_from_score base_score ''v3'' of
               Inl e \<Rightarrow> (Some e, s)
             | Inr severity \<Rightarrow>
                 and_then (count_in ''SeverityLevel'' (JStr severity) s)
                   (\<lambda>s1. if severity = ''Critical'' then count_in ''baseSeverity'' (JStr ''CRITICAL'') s1
                          else if severity = ''High'' then count_in ''baseSeverity'' (JStr ''HIGH'') s1
                          else if severity = ''Medium'' then count_in ''baseSeverity'' (JStr ''MEDIUM'') s1
                          else if severity = ''Low'' then count_in ''baseSeverity'' (JStr ''LOW'') s1
                          else (None, s1))))"

text \<open>The legacy v2 sub-block (lines 354 to 370).\<close>

definition legacy_v2 :: "json \<Rightarrow> step" where
  "legacy_v2 cvss_v2 s0 =
     (let s = s0\<lparr>cvss_v2_files := cvss_v2_files s0 + 1\<rparr> in
      case py_get cvss_v2 ''baseScore'' JNull of
        Inl e \<Rightarrow> (Some e, s)
      | Inr base_score \<Rightarrow>
          if base_score = JNull then (None, s)
          else
            (case calculate_severity_from_score base_score ''v2'' of
               Inl e \<Rightarrow> (Some e, s)
             | Inr severity \<Rightarrow>
                 and_then (count_in ''SeverityLevel'' (JStr severity) s)
                   (\<lambda>s1. if severity = ''High'' then count_in ''baseSeverity'' (JStr ''HIGH'') s1
                          else if severity = ''Medium'' then count_in ''baseSeverity'' (JStr ''MEDIUM'') s1
                          else if severity = ''Low'' then count_in ''baseSeverity'' (JStr ''LOW'') s1
                          else (None, s1))))"

fun is_dict :: "json \<Rightarrow> bool" where
  "is_dict (JObj kvs) = True"
| "is_dict _ = False"

definition legacy_tier :: "json \<Rightarrow> tier" where
  "legacy_tier data s =
     (case py_get data ''impact'' (JObj []) of
        Inl e \<Rightarrow> (Inl e, s)
      | Inr impact_data \<Rightarrow>
          if \<not> is_dict impact_data then (Inr False, s)
          else
            (case seq (py_get impact_data ''baseMetricV3'' (JObj []))
                    (\<lambda>b. py_get b ''cvssV3'' (JObj [])) of
               Inl e \<Rightarrow> (Inl e, s)
             | Inr cvss_v3 \<Rightarrow>
                 if truthy cvss_v3 then found (legacy_v3 cvss_v3 s)
                 else
                   (case seq (py_get impact_data ''baseMetricV2'' (JObj []))
                           (\<lambda>b. py_get b ''cvssV2'' (JObj [])) of
                      Inl e \<Rightarrow> (Inl e, s)
                    | Inr cvss_v2 \<Rightarrow>
                        if truthy cvss_v2 then found (legacy_v2 cvss_v2 s)
                        else (Inr False, s))))"

text \<open>The body of the \<^verbatim>\<open>try\<close> after \<^verbatim>\<open>json.load\<close> (lines 260 to 375). The progress
  message is not modelled.\<close>

definition process_document :: "json \<Rightarrow> step" where
  "process_document data s =
     (case cna_tier data s of
        (Inl e, s1) \<Rightarrow> (Some e, s1)
      | (Inr has1, s1) \<Rightarrow>
          (case (if \<not> has1 then adp_tier data s1 else (Inr has1, s1)) of
             (Inl e, s2) \<Rightarrow> (Some e, s2)
           | (Inr has2, s2) \<Rightarrow>
               (case (if \<not> has2 then legacy_tier data s2 else (Inr has2, s2)) of
                  (Inl e, s3) \<Rightarrow> (Some e, s3)
                | (Inr has3, s3) \<Rightarrow>
                    (let s4 = (if has3
                               then s3\<lparr>files_with_metrics := files_with_metrics s3 + 1\<rparr>
                               else s3)
                     in (None, s4\<lparr>files_processed := files_processed s4 + 1\<rparr>)))))"

text \<open>One turn of \<^verbatim>\<open>for file_path in json_file_paths\<close> (lines 253 to 382). A file is
  its path and what \<^verbatim>\<open>json.load\<close> returned, \<open>None\<close> when opening or decoding it raised.\<close>

definition process_file :: "string \<times> json option \<Rightarrow> tally \<Rightarrow> tally" where
  "process_file file s0 =
     (let s = s0\<lparr>total_files := total_files s0 + 1\<rparr> in
      case snd file of
        None \<Rightarrow> s\<lparr>error_log := error_log s @ [(fst file, LoadError)]\<rparr>
      | Some data \<Rightarrow>
          (case process_document data s of
             (None, s') \<Rightarrow> s'
           | (Some e, s') \<Rightarrow> s'\<lparr>error_log := error_log s' @ [(fst file, e)]\<rparr>))"

text \<open>The whole function: the loop from the empty counters, then the merge of the
  \<^verbatim>\<open>Authentication\<close> counter (lines 385 and 386).\<close>

definition process_json_files :: "(string \<times> json option) list \<Rightarrow> tally" where
  "process_json_files files =
     (let s = fold process_file files initial_tally in
      if frequency_counter_v2 s \<noteq> {#}
      then s\<lparr>frequency_counter :=
               (frequency_counter s)(''Authentication'' := frequency_counter_v2 s)\<rparr>
      else s)"

section \<open>Sample documents\<close>

text \<open>The values \<^verbatim>\<open>normalize_impact\<close> can return.\<close>

definition canonical_impacts :: "json set" where
  "canonical_impacts =
     {JStr ''HIGH'', JStr ''LOW'', JStr ''NONE'', JStr ''MEDIUM'', JStr ''N/A''}"

text \<open>A block on which the three tests of \<^verbatim>\<open>extract_metrics\<close> are all false.\<close>

definition no_version_key :: "json \<Rightarrow> bool" where
  "no_version_key b =
     (py_in ''cvssV3_1'' b = Inr False \<and> py_in ''cvssV3_0'' b = Inr False \<and>
      py_in ''cvssV2_0'' b = Inr False)"

text \<open>A current-era record whose primary section has one v3.1 block with a vector
  string.\<close>

definition vector_document :: json where
  "vector_document =
     JObj [(''containers'', JObj [(''cna'', JObj [(''metrics'',
       JArr [JObj [(''cvssV3_1'', JObj [(''vectorString'',
         JStr ''CVSS:3.1/AV:N/AC:L/PR:N/UI:N/S:U/C:H/I:L/A:N'')])]])])])]"

text \<open>Legacy records whose base score is zero.\<close>

definition legacy_zero_v3 :: json where
  "legacy_zero_v3 =
     JObj [(''impact'', JObj [(''baseMetricV3'',
       JObj [(''cvssV3'', JObj [(''baseScore'', JNum 0)])])])]"

definition legacy_zero_v2 :: json where
  "legacy_zero_v2 =
     JObj [(''impact'', JObj [(''baseMetricV2'',
       JObj [(''cvssV2'', JObj [(''baseScore'', JNum 0)])])])]"

text \<open>A record whose primary section rates the vulnerability under v3.1 and under
  v3.0.\<close>

definition two_v3_blocks :: json where
  "two_v3_blocks =
     JObj [(''containers'', JObj [(''cna'', JObj [(''metrics'',
       JArr [JObj [(''cvssV3_1'', JObj [(''vectorString'', JStr ''AV:N/C:H'')])],
             JObj [(''cvssV3_0'', JObj [(''vectorString'', JStr ''AV:N/C:H'')])]])])])]"

text \<open>Blocks and sections the next records are built from.\<close>

definition v31_block :: json where
  "v31_block = JObj [(''cvssV3_1'', JObj [(''vectorString'', JStr ''AV:N/C:H'')])]"


definition v4_block :: json where
  "v4_block = JObj [(''cvssV4_0'', JObj [(''vectorString'', JStr ''CVSS:4.0/AV:N'')])]"

definition legacy_impact :: json where
  "legacy_impact =
     JObj [(''baseMetricV3'', JObj [(''cvssV3'', JObj [(''baseScore'', JNum (98 / 10))])])]"





text \<open>A record whose primary section has only a v4.0 block, next to a secondary section
  and a legacy object that both hold a score.\<close>

definition v4_only_primary :: json where
  "v4_only_primary =
     JObj [(''containers'',
             JObj [(''cna'', JObj [(''metrics'', JArr [v4_block])]),
                   (''adp'', JArr [JObj [(''metrics'', JArr [v31_block])]])]),
           (''impact'', legacy_impact)]"


section \<open>Failing documents\<close>


text \<open>What a step that raises can have done to the state it started from: the per-file
  totals and the log are as before, and no counter has lost anything.\<close>

definition grows :: "tally \<Rightarrow> tally \<Rightarrow> bool" where
  "grows s s' =
     (total_files s' = total_files s \<and> files_with_metrics s' = files_with_metrics s \<and>
      files_processed s' = files_processed s \<and> error_log s' = error_log s \<and>
      (\<forall>name. frequency_counter s name \<subseteq># frequency_counter s' name) \<and>
      frequency_counter_v2 s \<subseteq># frequency_counter_v2 s' \<and>
      cvss_v2_files s \<le> cvss_v2_files s' \<and> cvss_v3_files s \<le> cvss_v3_files s')"

section \<open>Evaluation and auxiliary facts\<close>

lemmas model_defs =
  process_json_files_def process_file_def process_document_def cna_tier_def adp_tier_def
  legacy_tier_def legacy_v3_def legacy_v2_def cna_metrics_def scan_metrics_def found_def
  count_block_def count_version_def count_in_def and_then_def seq_def
  extract_metrics_def extract_severity_from_cvss_def severity_v3_def severity_v2_def
  decode_v3_def decode_v2_def parse_vector_string_def parse_vector_string_v2_def
  v3_part_def v2_part_def v3_defaults_def v2_defaults_def
  calculate_severity_from_score_def frequency_keys_def initial_tally_def Let_def

lemma py_in_dict: "py_in k (JObj kvs) = Inr (map_of kvs k \<noteq> None)"
  by (simp add: map_of_eq_None_iff)

lemma upper_fixed:
  "upper ''HIGH'' = ''HIGH''" "upper ''LOW'' = ''LOW''" "upper ''NONE'' = ''NONE''"
  "upper ''MEDIUM'' = ''MEDIUM''" "upper ''N/A'' = ''N/A''"
  by (simp_all add: upper_def upper_char_def)

lemma normalize_impact_range:
  "normalize_impact py_str x \<in> {''HIGH'', ''LOW'', ''NONE'', ''MEDIUM'', ''N/A''}"
  by (simp add: normalize_impact_def Let_def)

lemma normalize_impact_fixed:
  "y \<in> {''HIGH'', ''LOW'', ''NONE'', ''MEDIUM'', ''N/A''} \<Longrightarrow>
     normalize_impact py_str (JStr y) = y"
  by (auto simp add: normalize_impact_def Let_def upper_fixed)

subsection \<open>The parsers raise exactly when a segment has two or more colons\<close>

lemma split_on_length: "length (split_on c s) = Suc (count_list s c)"
  by (induction s) (auto split: list.splits)

lemma update_keeps_keys:
  "k \<in> set (map fst m) \<Longrightarrow> map fst (AList.update k v m) = map fst m"
  by (induction m) auto

lemma split_on_two:
  assumes "count_list part c = 1"
  shows "\<exists>key val. split_on c part = [key, val]"
proof -
  have "length (split_on c part) = 2"
    using assms by (simp add: split_on_length)
  then show ?thesis
    by (cases "split_on c part" rule: list.exhaust; simp)
       (metis length_0_conv length_Suc_conv)
qed

lemma split_on_many:
  assumes "2 \<le> count_list part c"
  shows "\<exists>x y z rest. split_on c part = x # y # z # rest"
proof -
  have "3 \<le> length (split_on c part)"
    using assms by (simp add: split_on_length)
  then show ?thesis
    by (metis Suc_le_length_iff numeral_3_eq_3)
qed

lemma v3_part_raises:
  "2 \<le> count_list part CHR '':'' \<Longrightarrow> v3_part part m = Inl ValueError"
proof -
  assume a: "2 \<le> count_list part CHR '':''"
  then have "CHR '':'' \<in> set part"
    by (metis count_list_0_iff not_numeral_le_zero)
  with split_on_many [OF a] show ?thesis
    by (auto simp add: v3_part_def)
qed

lemma update_same_keys:
  "map fst m = ks \<Longrightarrow> k \<in> set ks \<Longrightarrow> map fst (AList.update k v m) = ks"
  using update_keeps_keys [of k m v] by simp

lemma v3_names:
  "''Confidentiality'' \<in> set (map fst v3_defaults)" "''Integrity'' \<in> set (map fst v3_defaults)"
  "''Availability'' \<in> set (map fst v3_defaults)" "''Attack Vector'' \<in> set (map fst v3_defaults)"
  "''Attack Complexity'' \<in> set (map fst v3_defaults)"
  "''Privileges Required'' \<in> set (map fst v3_defaults)"
  "''User Interaction'' \<in> set (map fst v3_defaults)" "''Scope'' \<in> set (map fst v3_defaults)"
  by (simp_all add: v3_defaults_def)

lemma v3_part_returns:
  assumes "count_list part CHR '':'' < 2" and "map fst m = map fst v3_defaults"
  shows "\<exists>m'. v3_part part m = Inr m' \<and> map fst m' = map fst v3_defaults"
proof (cases "CHR '':'' \<in> set part")
  case False
  with assms show ?thesis by (simp add: v3_part_def)
next
  case True
  then have "count_list part CHR '':'' \<noteq> 0" by (simp add: count_list_0_iff)
  with assms have "count_list part CHR '':'' = 1" by simp
  then obtain key val where kv: "split_on CHR '':'' part = [key, val]"
    using split_on_two by blast
  show ?thesis
    using True kv assms(2)
    by (simp add: v3_part_def update_same_keys [OF assms(2)] v3_names del: set_map)
qed

lemma for_parts_v3_returns:
  assumes "\<forall>part\<in>set parts. count_list part CHR '':'' < 2"
    and "map fst m = map fst v3_defaults"
  shows "\<exists>m'. for_parts v3_part parts m = Inr m' \<and> map fst m' = map fst v3_defaults"
  using assms
proof (induction parts arbitrary: m)
  case Nil
  then show ?case by simp
next
  case (Cons part rest)
  then obtain m1 where "v3_part part m = Inr m1" and "map fst m1 = map fst v3_defaults"
    using v3_part_returns [of part m] by auto
  with Cons show ?case by simp
qed

lemma for_parts_v3_raises:
  assumes "\<exists>part\<in>set parts. 2 \<le> count_list part CHR '':''"
  shows "for_parts v3_part parts m = Inl ValueError"
  using assms
proof (induction parts arbitrary: m)
  case Nil
  then show ?case by simp
next
  case (Cons part rest)
  show ?case
  proof (cases "2 \<le> count_list part CHR '':''")
    case True
    then show ?thesis by (simp add: v3_part_raises)
  next
    case False
    then have "count_list part CHR '':'' < 2" by simp
    then have "v3_part part m = Inl ValueError \<or> (\<exists>m1. v3_part part m = Inr m1)"
      by (cases "v3_part part m") (auto simp add: v3_part_def split: if_splits list.splits)
    moreover from Cons.prems False have "\<exists>p\<in>set rest. 2 \<le> count_list p CHR '':''" by auto
    ultimately show ?thesis using Cons.IH by auto
  qed
qed

lemma parse_vector_string_returns:
  assumes "\<forall>part\<in>set (split_on CHR ''/'' s). count_list part CHR '':'' < 2"
  shows "\<exists>m. parse_vector_string (JStr s) = Inr m \<and> map fst m = map fst v3_defaults"
  using for_parts_v3_returns [OF assms, of v3_defaults]
  by (simp add: parse_vector_string_def seq_def)

lemma parse_vector_string_raises:
  assumes "\<exists>part\<in>set (split_on CHR ''/'' s). 2 \<le> count_list part CHR '':''"
  shows "parse_vector_string (JStr s) = Inl ValueError"
proof -
  from assms have "s \<noteq> []" by auto
  then show ?thesis
    using for_parts_v3_raises [OF assms, of v3_defaults]
    by (simp add: parse_vector_string_def seq_def)
qed

lemma v2_part_raises:
  "2 \<le> count_list part CHR '':'' \<Longrightarrow> v2_part part m = Inl ValueError"
proof -
  assume a: "2 \<le> count_list part CHR '':''"
  then have "CHR '':'' \<in> set part"
    by (metis count_list_0_iff not_numeral_le_zero)
  with split_on_many [OF a] show ?thesis
    by (auto simp add: v2_part_def)
qed

lemma v2_names:
  "''Confidentiality'' \<in> set (map fst v2_defaults)" "''Integrity'' \<in> set (map fst v2_defaults)"
  "''Availability'' \<in> set (map fst v2_defaults)" "''Attack Vector'' \<in> set (map fst v2_defaults)"
  "''Attack Complexity'' \<in> set (map fst v2_defaults)"
  "''Authentication'' \<in> set (map fst v2_defaults)"
  by (simp_all add: v2_defaults_def)

lemma v2_part_returns:
  assumes "count_list part CHR '':'' < 2" and "map fst m = map fst v2_defaults"
  shows "\<exists>m'. v2_part part m = Inr m' \<and> map fst m' = map fst v2_defaults"
proof (cases "CHR '':'' \<in> set part")
  case False
  with assms show ?thesis by (simp add: v2_part_def)
next
  case True
  then have "count_list part CHR '':'' \<noteq> 0" by (simp add: count_list_0_iff)
  with assms have "count_list part CHR '':'' = 1" by simp
  then obtain key val where kv: "split_on CHR '':'' part = [key, val]"
    using split_on_two by blast
  show ?thesis
    using True kv assms(2)
    by (simp add: v2_part_def update_same_keys [OF assms(2)] v2_names del: set_map)
qed

lemma for_parts_v2_returns:
  assumes "\<forall>part\<in>set parts. count_list part CHR '':'' < 2"
    and "map fst m = map fst v2_defaults"
  shows "\<exists>m'. for_parts v2_part parts m = Inr m' \<and> map fst m' = map fst v2_defaults"
  using assms
proof (induction parts arbitrary: m)
  case Nil
  then show ?case by simp
next
  case (Cons part rest)
  then obtain m1 where "v2_part part m = Inr m1" and "map fst m1 = map fst v2_defaults"
    using v2_part_returns [of part m] by auto
  with Cons show ?case by simp
qed

lemma for_parts_v2_raises:
  assumes "\<exists>part\<in>set parts. 2 \<le> count_list part CHR '':''"
  shows "for_parts v2_part parts m = Inl ValueError"
  using assms
proof (induction parts arbitrary: m)
  case Nil
  then show ?case by simp
next
  case (Cons part rest)
  show ?case
  proof (cases "2 \<le> count_list part CHR '':''")
    case True
    then show ?thesis by (simp add: v2_part_raises)
  next
    case False
    then have "count_list part CHR '':'' < 2" by simp
    then have "v2_part part m = Inl ValueError \<or> (\<exists>m1. v2_part part m = Inr m1)"
      by (cases "v2_part part m") (auto simp add: v2_part_def split: if_splits list.splits)
    moreover from Cons.prems False have "\<exists>p\<in>set rest. 2 \<le> count_list p CHR '':''" by auto
    ultimately show ?thesis using Cons.IH by auto
  qed
qed

lemma parse_vector_string_v2_returns:
  assumes "\<forall>part\<in>set (split_on CHR ''/'' s). count_list part CHR '':'' < 2"
  shows "\<exists>m. parse_vector_string_v2 (JStr s) = Inr m \<and> map fst m = map fst v2_defaults"
  using for_parts_v2_returns [OF assms, of v2_defaults]
  by (simp add: parse_vector_string_v2_def seq_def)

lemma parse_vector_string_v2_raises:
  assumes "\<exists>part\<in>set (split_on CHR ''/'' s). 2 \<le> count_list part CHR '':''"
  shows "parse_vector_string_v2 (JStr s) = Inl ValueError"
proof -
  from assms have "s \<noteq> []" by auto
  then show ?thesis
    using for_parts_v2_raises [OF assms, of v2_defaults]
    by (simp add: parse_vector_string_v2_def seq_def)
qed

subsection \<open>The counting loop of \<^verbatim>\<open>cvss_metric_plot.py\<close> counts normalised impacts only\<close>

lemma count_in_other:
  "name' \<noteq> name \<Longrightarrow>
     frequency_counter (snd (count_in name v s)) name' = frequency_counter s name'"
  by (simp add: count_in_def split: sum.splits)

lemma plot_step:
  assumes "name \<in> {''Confidentiality'', ''Integrity'', ''Availability''}"
  shows "set_mset (frequency_counter
            (snd (count_in (fst kv)
                    (if fst kv \<in> set [''Confidentiality'', ''Integrity'', ''Availability'']
                     then JStr (normalize_impact py_str (snd kv)) else snd kv) s)) name)
         \<subseteq> set_mset (frequency_counter s name) \<union> canonical_impacts"
proof (cases "fst kv = name")
  case True
  with assms show ?thesis
    using normalize_impact_range [of py_str "snd kv"]
    by (auto simp add: count_in_def canonical_impacts_def)
next
  case False
  then have same:
    "frequency_counter (snd (count_in (fst kv) v s)) name = frequency_counter s name" for v
    by (intro count_in_other) auto
  show ?thesis unfolding same by simp
qed

lemma plot_counts_normalized:
  assumes "name \<in> {''Confidentiality'', ''Integrity'', ''Availability''}"
  shows "set_mset (frequency_counter (snd (update_counters_plot py_str m s)) name)
           \<subseteq> set_mset (frequency_counter s name) \<union> canonical_impacts"
proof (induction m arbitrary: s)
  case Nil
  then show ?case by simp
next
  case (Cons kv rest)
  let ?val = "if fst kv \<in> set [''Confidentiality'', ''Integrity'', ''Availability'']
              then JStr (normalize_impact py_str (snd kv)) else snd kv"
  show ?case
  proof (cases "fst kv \<in> set frequency_keys")
    case False
    then show ?thesis using Cons.IH [of s] by (simp add: Let_def)
  next
    case True
    obtain r s1 where step: "count_in (fst kv) ?val s = (r, s1)"
      by (cases "count_in (fst kv) ?val s")
    have s1: "set_mset (frequency_counter s1 name)
              \<subseteq> set_mset (frequency_counter s name) \<union> canonical_impacts"
      using plot_step [OF assms, of kv py_str s] step by simp
    show ?thesis
    proof (cases r)
      case None
      with True step
      have "update_counters_plot py_str (kv # rest) s = update_counters_plot py_str rest s1"
        by (simp add: Let_def and_then_def)
      with Cons.IH [of s1] s1 show ?thesis by auto
    next
      case (Some e)
      with True step have "update_counters_plot py_str (kv # rest) s = (Some e, s1)"
        by (simp add: Let_def and_then_def)
      with s1 show ?thesis by simp
    qed
  qed
qed

subsection \<open>Documents that are not objects\<close>


subsection \<open>A step never changes the per-file totals and never removes a count\<close>

lemma grows_refl: "grows s s"
  by (simp add: grows_def)

lemma grows_trans: "grows s s1 \<Longrightarrow> grows s1 s2 \<Longrightarrow> grows s s2"
  unfolding grows_def by (metis (no_types, lifting) le_trans subset_mset.order_trans)

lemma count_in_grows: "grows s (snd (count_in name v s))"
  by (simp add: count_in_def grows_def split: sum.splits)

lemma and_then_grows:
  assumes "grows s (snd r)" and "\<And>s1. grows s1 (snd (f s1))"
  shows "grows s (snd (and_then r f))"
proof (cases r)
  case (Pair e s1)
  show ?thesis
  proof (cases e)
    case None
    with Pair assms(1) assms(2) [of s1] show ?thesis
      by (auto simp add: and_then_def intro: grows_trans)
  next
    case (Some x)
    with Pair assms(1) show ?thesis by (simp add: and_then_def)
  qed
qed

lemma update_counters_grows: "grows s (snd (update_counters m s))"
proof (induction m arbitrary: s)
  case Nil
  then show ?case by (simp add: grows_refl)
next
  case (Cons kv rest)
  show ?case
  proof (cases "fst kv \<in> set frequency_keys")
    case True
    then show ?thesis
      using and_then_grows [OF count_in_grows, of "update_counters rest"] Cons.IH by simp
  next
    case False
    then show ?thesis using Cons.IH by simp
  qed
qed

lemma count_version_grows: "grows s (snd (count_version cvss_data metrics s))"
  by (simp add: count_version_def grows_def Let_def split: sum.splits option.splits)

lemma count_block_grows: "grows s (snd (count_block cvss_data s))"
proof (cases "extract_metrics cvss_data")
  case (Inl e)
  then show ?thesis by (simp add: count_block_def grows_refl)
next
  case m: (Inr m)
  show ?thesis
  proof (cases "m = [] \<or> (\<exists>e. extract_severity_from_cvss cvss_data = Inl e)")
    case True
    with m show ?thesis by (auto simp add: count_block_def grows_refl)
  next
    case False
    then obtain l where l: "extract_severity_from_cvss cvss_data = Inr l" and ne: "m \<noteq> []"
      by (cases "extract_severity_from_cvss cvss_data") auto
    have inner: "grows s1 (snd (and_then (count_version cvss_data m s1) (update_counters m)))"
      for s1
      by (rule and_then_grows [OF count_version_grows update_counters_grows])
    have first:
      "grows s (snd (if l \<noteq> ''N/A'' then count_in ''SeverityLevel'' (JStr l) s else (None, s)))"
      by (simp add: count_in_grows grows_refl)
    show ?thesis
      using and_then_grows [OF first inner] m l ne by (simp add: count_block_def)
  qed
qed

lemma for_blocks_grows: "grows s (snd (for_blocks blocks s))"
proof (induction blocks arbitrary: s)
  case Nil
  then show ?case by (simp add: grows_refl)
next
  case (Cons b rest)
  then show ?case
    using and_then_grows [OF count_block_grows, of "for_blocks rest"] by simp
qed

lemma scan_metrics_grows: "grows s (snd (scan_metrics m s))"
  by (simp add: scan_metrics_def grows_refl for_blocks_grows split: sum.splits)

lemma snd_found: "snd (found r) = snd r"
  by (simp add: found_def split: prod.splits option.splits)

lemma cna_tier_grows: "grows s (snd (cna_tier data s))"
  by (simp add: cna_tier_def snd_found scan_metrics_grows grows_refl split: sum.splits)

lemma for_adp_grows: "grows s (snd (for_adp adps h s))"
proof (induction adps arbitrary: h s)
  case Nil
  then show ?case by (simp add: grows_refl)
next
  case (Cons adp rest)
  show ?case
  proof (cases "py_get adp ''metrics'' (JArr [])")
    case (Inl e)
    then show ?thesis by (simp add: grows_refl)
  next
    case (Inr m)
    show ?thesis
    proof (cases "truthy m")
      case False
      with Inr Cons.IH show ?thesis by simp
    next
      case True
      obtain r s1 where sc: "scan_metrics m s = (r, s1)" by (cases "scan_metrics m s")
      then have g: "grows s s1" using scan_metrics_grows [of s m] by simp
      show ?thesis
      proof (cases r)
        case None
        with Inr True sc g Cons.IH [of s1 True] show ?thesis
          by (auto intro: grows_trans)
      next
        case (Some e)
        with Inr True sc g show ?thesis by simp
      qed
    qed
  qed
qed

lemma adp_tier_grows: "grows s (snd (adp_tier data s))"
  by (simp add: adp_tier_def for_adp_grows grows_refl split: sum.splits)

lemma legacy_v3_grows: "grows s (snd (legacy_v3 c s))"
  by (simp add: legacy_v3_def count_in_def and_then_def grows_def Let_def split: sum.splits)

lemma legacy_v2_grows: "grows s (snd (legacy_v2 c s))"
  by (simp add: legacy_v2_def count_in_def and_then_def grows_def Let_def split: sum.splits)

lemma legacy_tier_grows: "grows s (snd (legacy_tier data s))"
  by (simp add: legacy_tier_def snd_found legacy_v3_grows legacy_v2_grows grows_refl
      split: sum.splits)

lemma tier_grows:
  "cna_tier data s = (r, s1) \<Longrightarrow> grows s s1"
  "adp_tier data s = (r, s1) \<Longrightarrow> grows s s1"
  "legacy_tier data s = (r, s1) \<Longrightarrow> grows s s1"
  using cna_tier_grows [of s data] adp_tier_grows [of s data] legacy_tier_grows [of s data]
  by simp_all

lemma process_document_shape:
  "\<exists>s3. grows s s3 \<and>
     (case process_document data s of
        (Some e, s') \<Rightarrow> s' = s3
      | (None, s') \<Rightarrow>
          error_log s' = error_log s3 \<and> total_files s' = total_files s3)"
proof -
  obtain r1 s1 where t1: "cna_tier data s = (r1, s1)" by (cases "cna_tier data s")
  then have g1: "grows s s1" by (rule tier_grows)
  obtain r2 s2 where t2:
    "(case r1 of Inl e \<Rightarrow> (r1, s1)
      | Inr has1 \<Rightarrow> if \<not> has1 then adp_tier data s1 else (Inr has1, s1)) = (r2, s2)"
    by (cases "case r1 of Inl e \<Rightarrow> (r1, s1)
      | Inr has1 \<Rightarrow> if \<not> has1 then adp_tier data s1 else (Inr has1, s1)")
  then have g2: "grows s1 s2"
    by (auto split: sum.splits if_splits intro: grows_refl tier_grows)
  obtain r3 s3 where t3:
    "(case r2 of Inl e \<Rightarrow> (r2, s2)
      | Inr has2 \<Rightarrow> if \<not> has2 then legacy_tier data s2 else (Inr has2, s2)) = (r3, s3)"
    by (cases "case r2 of Inl e \<Rightarrow> (r2, s2)
      | Inr has2 \<Rightarrow> if \<not> has2 then legacy_tier data s2 else (Inr has2, s2)")
  then have g3: "grows s2 s3"
    by (auto split: sum.splits if_splits intro: grows_refl tier_grows)
  have g: "grows s s3" using g1 g2 g3 by (blast intro: grows_trans)
  have c: "case process_document data s of
        (Some e, s') \<Rightarrow> s' = s3
      | (None, s') \<Rightarrow>
          error_log s' = error_log s3 \<and> total_files s' = total_files s3"
    using t1 t2 t3
    by (auto simp add: process_document_def Let_def split: sum.splits if_splits)
  show ?thesis by (rule exI [of _ s3], rule conjI [OF g c])
qed


lemma process_document_log:
  assumes "process_document data s = (r, s')"
  shows "error_log s' = error_log s"
  using process_document_shape [of s data] assms
  by (cases r) (auto simp add: grows_def)


subsection \<open>Blocks of an unknown standard version\<close>

lemma extract_metrics_unknown: "no_version_key b \<Longrightarrow> extract_metrics b = Inr []"
  by (simp add: no_version_key_def extract_metrics_def seq_def)

lemma count_block_unknown: "no_version_key b \<Longrightarrow> count_block b s = (None, s)"
  by (simp add: count_block_def extract_metrics_unknown)

lemma for_blocks_unknown:
  "\<forall>b\<in>set blocks. no_version_key b \<Longrightarrow> for_blocks blocks s = (None, s)"
  by (induction blocks) (simp_all add: count_block_unknown and_then_def)

subsection \<open>Which tier decides the outcome of a document\<close>





lemma severity_v3_label:
  assumes "map_of cvss ''baseSeverity'' = Some (JStr label)"
    and "label \<in> {''CRITICAL'', ''HIGH'', ''MEDIUM'', ''LOW''}"
  shows "severity_v3 (JObj cvss) =
           Inr (if label = ''CRITICAL'' then ''Critical'' else if label = ''HIGH'' then ''High''
                else if label = ''MEDIUM'' then ''Medium'' else ''Low'')"
  using assms by (auto simp add: severity_v3_def seq_def)

section \<open>Results\<close>

text \<open>
  C1. The claim is that parsing a vector string never raises, for any string and either
  grammar, and that a segment which does not split into one key and one value is
  skipped. A segment with two colons is not skipped: the unpacking of its three parts
  raises \<^verbatim>\<open>ValueError\<close>, in both parsers, and the segments after it are never read.
  This is the only way the parsers fail on a string: when no segment has two colons they
  return a map with every key of the grammar (\<open>parse_vector_string_returns\<close>,
  \<open>parse_vector_string_v2_returns\<close>).
\<close>

theorem parse_vector_two_colons_raises:
  "parse_vector_string (JStr ''AV:N/C:H:X/I:L'') = Inl ValueError \<and>
   parse_vector_string_v2 (JStr ''AV:N/C:P:X/I:N'') = Inl ValueError"
  by (simp add: parse_vector_string_def parse_vector_string_v2_def seq_def
      v3_part_def v2_part_def v3_defaults_def v2_defaults_def)

text \<open>
  C2. The claim is that the Confidentiality, Integrity and Availability values are
  normalised before they are counted, so that every counted value is one of HIGH, LOW,
  NONE, MEDIUM and N/A. \<^verbatim>\<open>process_json_files\<close> of \<^verbatim>\<open>cvss_metrics.py\<close> counts the raw
  letters of the vector string: for one v3.1 block with the vector C:H/I:L/A:N the three
  counters hold H, L and N, none of them a normalised value. The loop of
  \<^verbatim>\<open>cvss_metric_plot.py\<close> does normalise (\<open>plot_counts_normalized\<close>).
\<close>

theorem raw_impact_letters_counted:
  "frequency_counter (process_json_files [(''CVE-1.json'', Some vector_document)])
     ''Confidentiality'' = {#JStr ''H''#} \<and>
   frequency_counter (process_json_files [(''CVE-1.json'', Some vector_document)])
     ''Integrity'' = {#JStr ''L''#} \<and>
   frequency_counter (process_json_files [(''CVE-1.json'', Some vector_document)])
     ''Availability'' = {#JStr ''N''#} \<and>
   JStr ''H'' \<notin> canonical_impacts \<and> JStr ''L'' \<notin> canonical_impacts \<and>
   JStr ''N'' \<notin> canonical_impacts"
  by (simp add: model_defs vector_document_def canonical_impacts_def)




text \<open>
  C4. The claim is that the severity counter is never incremented at the undetermined
  value N/A, on any path. The two loops over score blocks test the label before they
  count it; the legacy path counts whatever the thresholds return. A legacy record with
  base score 0, under v3 or under v2, leaves one N/A in the \<^verbatim>\<open>SeverityLevel\<close> counter.
\<close>

theorem legacy_counts_undetermined:
  "count (frequency_counter (process_json_files [(''CVE-1.json'', Some legacy_zero_v3)])
            ''SeverityLevel'') (JStr ''N/A'') = 1 \<and>
   count (frequency_counter (process_json_files [(''CVE-2.json'', Some legacy_zero_v2)])
            ''SeverityLevel'') (JStr ''N/A'') = 1"
  by (simp add: model_defs legacy_zero_v3_def legacy_zero_v2_def)

text \<open>
  C5. The claim is that a document increments the version counters at most once in
  total. The loops over score blocks increment them once for every decoded block: one
  document with a v3.1 and a v3.0 block adds two to \<^verbatim>\<open>cvss_v3_files\<close>, while it is one
  file and is counted once in \<^verbatim>\<open>files_with_metrics\<close>.
\<close>

theorem version_counted_per_block:
  "cvss_v3_files (process_json_files [(''CVE-1.json'', Some two_v3_blocks)]) = 2 \<and>
   files_with_metrics (process_json_files [(''CVE-1.json'', Some two_v3_blocks)]) = 1 \<and>
   total_files (process_json_files [(''CVE-1.json'', Some two_v3_blocks)]) = 1"
  by (simp add: model_defs two_v3_blocks_def)



text \<open>
  C7. A v3 block (the v3.1 object, or the v3.0 object when there is no v3.1 key) whose
  \<^verbatim>\<open>baseSeverity\<close> is one of CRITICAL, HIGH, MEDIUM and LOW resolves to that label in
  title case, whatever else the object holds: a base score, of any value and any type,
  is not read.
\<close>

theorem label_priority:
  assumes "map_of blk ''cvssV3_1'' = Some (JObj cvss) \<or>
           (map_of blk ''cvssV3_1'' = None \<and> map_of blk ''cvssV3_0'' = Some (JObj cvss))"
    and "map_of cvss ''baseSeverity'' = Some (JStr label)"
    and "label \<in> {''CRITICAL'', ''HIGH'', ''MEDIUM'', ''LOW''}"
  shows "extract_severity_from_cvss (JObj blk) =
           Inr (if label = ''CRITICAL'' then ''Critical'' else if label = ''HIGH'' then ''High''
                else if label = ''MEDIUM'' then ''Medium'' else ''Low'')"
proof -
  have "extract_severity_from_cvss (JObj blk) = severity_v3 (JObj cvss)"
    using assms(1)
    by (auto simp add: extract_severity_from_cvss_def py_in_dict seq_def simp del: py_in.simps)
  then show ?thesis
    using severity_v3_label [OF assms(2,3)] by simp
qed

theorem label_priority_witness:
  "extract_severity_from_cvss
     (JObj [(''cvssV3_1'',
             JObj [(''baseScore'', JNum (98 / 10)), (''baseSeverity'', JStr ''HIGH'')])])
   = Inr ''High'' \<and>
   calculate_severity_from_score (JNum (98 / 10)) ''v3'' = Inr ''Critical''"
  using label_priority
    [of "[(''cvssV3_1'',
           JObj [(''baseScore'', JNum (98 / 10)), (''baseSeverity'', JStr ''HIGH'')])]"
        "[(''baseScore'', JNum (98 / 10)), (''baseSeverity'', JStr ''HIGH'')]" "''HIGH''"]
  by (simp add: calculate_severity_from_score_def seq_def)

text \<open>
  C8. For every numeric base score the label follows the thresholds of the version:
  under v3, Critical from 9, High from 7, Medium from 4, Low from one tenth, else N/A;
  under v2 the same without the Critical tier, so that 9.8 is Critical under v3 and High
  under v2, and no score is Critical under v2.
\<close>

theorem score_thresholds:
  "calculate_severity_from_score (JNum r) ''v3'' =
     Inr (if 9 \<le> r then ''Critical'' else if 7 \<le> r then ''High''
          else if 4 \<le> r then ''Medium'' else if 1 / 10 \<le> r then ''Low'' else ''N/A'') \<and>
   calculate_severity_from_score (JNum r) ''v2'' =
     Inr (if 7 \<le> r then ''High''
          else if 4 \<le> r then ''Medium'' else if 1 / 10 \<le> r then ''Low'' else ''N/A'') \<and>
   calculate_severity_from_score (JNum r) ''v2'' \<noteq> Inr ''Critical'' \<and>
   calculate_severity_from_score (JNum (98 / 10)) ''v3'' = Inr ''Critical'' \<and>
   calculate_severity_from_score (JNum (98 / 10)) ''v2'' = Inr ''High''"
  by (simp add: calculate_severity_from_score_def seq_def)

text \<open>
  C9. Normalisation is idempotent: normalising the string that \<^verbatim>\<open>normalize_impact\<close>
  returned gives that string again, for every value and whatever \<^verbatim>\<open>str\<close> makes of a
  value that is not a string.
\<close>

theorem normalize_impact_idempotent:
  "normalize_impact py_str (JStr (normalize_impact py_str x)) = normalize_impact py_str x"
  by (rule normalize_impact_fixed [OF normalize_impact_range])

text \<open>
  C10. When the primary metrics are a non-empty list of blocks that have none of the
  three version keys, every block decodes to the empty metric map and the document
  completes without an exception, with one more file with metrics and one more file
  processed and every other counter as before. The secondary sections and the legacy
  object are not read: the outcome is the same whatever they hold.
\<close>

theorem unknown_version_blocks:
  assumes "cna_metrics data = Inr (JArr blocks)" and "blocks \<noteq> []"
    and "\<forall>b\<in>set blocks. no_version_key b"
  shows "(\<forall>b\<in>set blocks. extract_metrics b = Inr []) \<and>
         process_document data s =
           (None, s\<lparr>files_with_metrics := files_with_metrics s + 1,
                     files_processed := files_processed s + 1\<rparr>)"
proof -
  have "cna_tier data s = (Inr True, s)"
    using assms by (simp add: cna_tier_def scan_metrics_def for_blocks_unknown found_def)
  then have "process_document data s =
           (None, s\<lparr>files_with_metrics := files_with_metrics s + 1,
                     files_processed := files_processed s + 1\<rparr>)"
    by (simp add: process_document_def Let_def)
  with assms(3) show ?thesis by (simp add: extract_metrics_unknown)
qed

theorem unknown_version_blocks_witness:
  "extract_metrics v4_block = Inr [] \<and>
   process_document v4_only_primary initial_tally =
     (None, initial_tally\<lparr>files_with_metrics := files_with_metrics initial_tally + 1,
                           files_processed := files_processed initial_tally + 1\<rparr>)"
proof -
  have "cna_metrics v4_only_primary = Inr (JArr [v4_block])"
    by (simp add: cna_metrics_def seq_def v4_only_primary_def)
  moreover have "\<forall>b\<in>set [v4_block]. no_version_key b"
    by (simp add: no_version_key_def v4_block_def)
  ultimately show ?thesis
    using unknown_version_blocks [of v4_only_primary "[v4_block]" initial_tally] by simp
qed

end
